theory Spec2Isabelle
  imports Main "HOL-Library.Word"
begin

unbundle bit_operations_syntax

section \<open>Data model of \<open>src/plugins/mdns/mdnsserver.cpp\<close>\<close>

text \<open>
  The file implements the class \<open>MdnsServer\<close>: two UDP sockets (one per IP family), a
  single-shot maintenance timer, a single-shot hostname timer, the candidate hostname, its
  suffix counter and the confirmation flag. Everything the class calls but does not define
  (Qt's sockets, timers and interface enumeration, the DNS codec of \<open>dnsutil.h\<close>) is
  represented by its observable answer: the answers of the operating system are inputs,
  the calls made on the sockets and the signals emitted are appended to a log.
\<close>

subsection \<open>Qt and DNS value types\<close>

text \<open>\<open>QAbstractSocket::NetworkLayerProtocol\<close>, the result of \<open>QHostAddress::protocol()\<close>.\<close>

datatype NetworkLayerProtocol =
  IPv4Protocol | IPv6Protocol | AnyIPProtocol | UnknownNetworkLayerProtocol

text \<open>\<open>DnsMessage::Protocol\<close>; it also names the socket of that family.\<close>

datatype Protocol = IPv4 | IPv6

text \<open>
  Modelled from the spec: the record types of \<open>dnsmessage.h\<close> (not among the sources).
  The spec distinguishes \<open>A\<close>, \<open>AAAA\<close> and every other type; the others keep their number.
\<close>

datatype RecordType = A | AAAA | OtherType nat

type_synonym QByteArray = "8 word list"

record QHostAddress =
  addrProtocol :: NetworkLayerProtocol
  addrText :: string

record DnsRecord =
  r_type :: RecordType
  r_name :: string
  r_ttl :: "32 word"

record DnsQuery =
  q_name :: string
  q_type :: RecordType

record DnsMessage =
  isResponse :: bool
  records :: "DnsRecord list"
  queries :: "DnsQuery list"
  address :: QHostAddress
  protocol :: Protocol
  port :: "16 word"

text \<open>
  \<open>QNetworkInterface\<close>: its name, its flag word and the list that the call
  \<open>interface.allAddresses()\<close> returns for it.
\<close>

record QNetworkInterface =
  ifName :: string
  flags :: "32 word"
  allAddresses :: "QHostAddress list"

text \<open>\<open>QNetworkInterface::CanMulticast\<close>, bit 5 of the flag word.\<close>

definition CanMulticast :: "32 word" where
  "CanMulticast = 0x20"

text \<open>
  Modelled from the spec: the constants of \<open>dnsutil.h\<close> (not among the sources): port
  5353, the IPv4 group 224.0.0.251 and the IPv6 group ff02::fb.
\<close>

definition MdnsPort :: "16 word" where
  "MdnsPort = 5353"

definition MdnsIpv4Address :: QHostAddress where
  "MdnsIpv4Address = \<lparr>addrProtocol = IPv4Protocol, addrText = ''224.0.0.251''\<rparr>"

definition MdnsIpv6Address :: QHostAddress where
  "MdnsIpv6Address = \<lparr>addrProtocol = IPv6Protocol, addrText = ''ff02::fb''\<rparr>"

text \<open>
  Modelled from the spec: a freshly constructed \<open>DnsMessage\<close> (\<open>dnsmessage.h\<close> is not
  among the sources) is a query without records or queries; \<open>checkHostname\<close> overwrites
  the address, the protocol and the port.
\<close>

definition DnsMessage_new :: DnsMessage where
  "DnsMessage_new =
     \<lparr>isResponse = False, records = [], queries = [],
      address = \<lparr>addrProtocol = UnknownNetworkLayerProtocol, addrText = []\<rparr>,
      protocol = IPv4, port = 0\<rparr>"

subsection \<open>The environment\<close>

text \<open>
  What does not change while the component lives: the codec (\<open>DnsUtil::toPacket\<close>,
  \<open>DnsUtil::fromPacket\<close>, the latter failing with \<open>None\<close>), the machine name returned by
  \<open>QHostInfo::localHostName()\<close>, whether the file is compiled with \<open>Q_OS_UNIX\<close>, and what
  \<open>QUdpSocket::writeDatagram\<close> does to a socket that is not bound: \<open>implicitBind f\<close> holds
  when a write on the unbound socket of family \<open>f\<close> leaves it bound (Qt 5 binds such a
  socket to a port of the system's choice before it writes; the spec describes the send as
  dropped, which is \<open>implicitBind f = False\<close>).
\<close>

record Platform =
  toPacket :: "DnsMessage \<Rightarrow> QByteArray"
  fromPacket :: "QByteArray \<Rightarrow> DnsMessage option"
  localHostName :: string
  Q_OS_UNIX :: bool
  implicitBind :: "Protocol \<Rightarrow> bool"

text \<open>
  What the operating system answers during one maintenance run: the interfaces, per socket
  the outcome of \<open>bind\<close> with \<open>ShareAddress\<close>, of \<open>setsockopt\<close> (\<open>Some\<close> the
  \<open>strerror\<close> text when it fails), of \<open>bind\<close> with \<open>ReuseAddressHint\<close>, the socket's
  \<open>errorString()\<close>, and whether a join on an interface is granted.
\<close>

record Os =
  allInterfaces :: "QNetworkInterface list"
  bindShareAddress :: "Protocol \<Rightarrow> bool"
  setsockoptError :: "Protocol \<Rightarrow> string option"
  bindReuseAddressHint :: "Protocol \<Rightarrow> bool"
  errorString :: "Protocol \<Rightarrow> string"
  joinGranted :: "Protocol \<Rightarrow> string \<Rightarrow> bool"

subsection \<open>The component\<close>

datatype SocketState = UnconnectedState | BoundState

text \<open>A \<open>QUdpSocket\<close>: its state and the interfaces on which it is a member of its group.\<close>

record QUdpSocket =
  state :: SocketState
  memberships :: "string set"

text \<open>The signals of the class and the calls it makes on its sockets.\<close>

datatype Output =
  Error string
  | HostnameConfirmed string
  | MessageReceived DnsMessage
  | WriteDatagram Protocol QByteArray QHostAddress "16 word"
  | JoinMulticastGroup Protocol QHostAddress string

text \<open>
  The members of \<open>MdnsServer\<close>. A timer is \<open>Some\<close> interval (in milliseconds) while it is
  running and \<open>None\<close> otherwise. The declared type of \<open>mHostnameSuffix\<close> is in
  \<open>mdnsserver.h\<close>, not among the sources; the counter is an unbounded integer here.
\<close>

record MdnsServer =
  mHostnameConfirmed :: bool
  mHostname :: string
  mHostnameSuffix :: int
  mSocketTimer :: "nat option"
  mHostnameTimer :: "nat option"
  mIpv4Socket :: QUdpSocket
  mIpv6Socket :: QUdpSocket
  outputs :: "Output list"

definition emit :: "Output \<Rightarrow> MdnsServer \<Rightarrow> MdnsServer" where
  "emit out s = s\<lparr>outputs := outputs s @ [out]\<rparr>"

definition socket :: "Protocol \<Rightarrow> MdnsServer \<Rightarrow> QUdpSocket" where
  "socket f s = (case f of IPv4 \<Rightarrow> mIpv4Socket s | IPv6 \<Rightarrow> mIpv6Socket s)"

definition setSocket :: "Protocol \<Rightarrow> QUdpSocket \<Rightarrow> MdnsServer \<Rightarrow> MdnsServer" where
  "setSocket f k s = (case f of IPv4 \<Rightarrow> s\<lparr>mIpv4Socket := k\<rparr> | IPv6 \<Rightarrow> s\<lparr>mIpv6Socket := k\<rparr>)"

section \<open>The member functions\<close>

subsection \<open>\<open>sendMessage\<close> and \<open>checkHostname\<close>\<close>

text \<open>
  \<open>writeDatagram\<close> on the socket of family \<open>f\<close>: the call is logged, and a socket that
  was not bound is left bound when the library binds it for the write.
\<close>

definition writeDatagram ::
  "Platform \<Rightarrow> Protocol \<Rightarrow> QByteArray \<Rightarrow> QHostAddress \<Rightarrow> 16 word \<Rightarrow> MdnsServer \<Rightarrow> MdnsServer" where
  "writeDatagram p f packet addr prt s =
     (let s1 = emit (WriteDatagram f packet addr prt) s
      in if state (socket f s1) = UnconnectedState \<and> implicitBind p f
         then setSocket f ((socket f s1)\<lparr>state := BoundState\<rparr>) s1
         else s1)"

text \<open>
  \<open>sendMessage\<close> encodes the message and calls \<open>writeDatagram\<close> on the socket of the
  message's family.
\<close>

definition sendMessage :: "Platform \<Rightarrow> DnsMessage \<Rightarrow> MdnsServer \<Rightarrow> MdnsServer" where
  "sendMessage p message s =
     (let packet = toPacket p message;
          s1 = (if protocol message = IPv4
                then writeDatagram p IPv4 packet (address message) (port message) s
                else s);
          s2 = (if protocol message = IPv6
                then writeDatagram p IPv6 packet (address message) (port message) s1
                else s1)
      in s2)"

text \<open>The probe that \<open>checkHostname\<close> builds: one query of type \<open>A\<close> for the candidate.\<close>

definition probe :: "Protocol \<Rightarrow> string \<Rightarrow> DnsMessage" where
  "probe f hostname =
     DnsMessage_new
       \<lparr>queries := queries DnsMessage_new @ [\<lparr>q_name = hostname, q_type = A\<rparr>],
        address := (if f = IPv4 then MdnsIpv4Address else MdnsIpv6Address),
        protocol := f,
        port := MdnsPort\<rparr>"

definition checkHostname :: "Platform \<Rightarrow> Protocol \<Rightarrow> MdnsServer \<Rightarrow> MdnsServer" where
  "checkHostname p f s = sendMessage p (probe f (mHostname s)) s"

subsection \<open>\<open>bindSocket\<close>\<close>

text \<open>
  \<open>bindSocket\<close> is only called with \<open>mIpv4Socket\<close> and \<open>AnyIPv4\<close>, or with \<open>mIpv6Socket\<close>
  and \<open>AnyIPv6\<close>; the family stands for the pair. Under \<open>Q_OS_UNIX\<close> the share-mode bind
  comes first and the rest runs only when it fails; otherwise only the second bind runs.
  A successful bind leaves the socket in \<open>BoundState\<close>.
\<close>

definition bindReuse :: "Os \<Rightarrow> Protocol \<Rightarrow> MdnsServer \<Rightarrow> MdnsServer" where
  "bindReuse os f s =
     (if \<not> bindReuseAddressHint os f
      then emit (Error (errorString os f)) s
      else setSocket f ((socket f s)\<lparr>state := BoundState\<rparr>) s)"

definition bindSocket :: "Platform \<Rightarrow> Os \<Rightarrow> Protocol \<Rightarrow> MdnsServer \<Rightarrow> MdnsServer" where
  "bindSocket p os f s =
     (if Q_OS_UNIX p then
        (if \<not> bindShareAddress os f then
           (let s1 = (case setsockoptError os f of
                        Some msg \<Rightarrow> emit (Error msg) s
                      | None \<Rightarrow> s)
            in bindReuse os f s1)
         else setSocket f ((socket f s)\<lparr>state := BoundState\<rparr>) s)
      else bindReuse os f s)"

subsection \<open>\<open>onSocketTimeout\<close>\<close>

text \<open>The inner loop over the addresses, with its two flags \<open>(ipv4Address, ipv6Address)\<close>.\<close>

fun scanAddresses :: "QHostAddress list \<Rightarrow> bool \<times> bool \<Rightarrow> bool \<times> bool" where
  "scanAddresses [] found = found"
| "scanAddresses (a # as) (ipv4Address, ipv6Address) =
     scanAddresses as
       (ipv4Address \<or> addrProtocol a = IPv4Protocol,
        ipv6Address \<or> addrProtocol a = IPv6Protocol)"

text \<open>
  \<open>joinMulticastGroup\<close> on the socket of family \<open>f\<close>: the call is logged; the socket becomes a
  member on the interface when the operating system grants it.
\<close>

definition joinMulticastGroup ::
  "Os \<Rightarrow> Protocol \<Rightarrow> QHostAddress \<Rightarrow> QNetworkInterface \<Rightarrow> MdnsServer \<Rightarrow> MdnsServer" where
  "joinMulticastGroup os f grp interface s =
     (let s1 = emit (JoinMulticastGroup f grp (ifName interface)) s
      in if joinGranted os f (ifName interface)
         then setSocket f
                ((socket f s1)\<lparr>memberships := insert (ifName interface) (memberships (socket f s1))\<rparr>) s1
         else s1)"

text \<open>The body of the loop over the interfaces (lines 87 to 100).\<close>

definition joinInterface ::
  "Os \<Rightarrow> bool \<Rightarrow> bool \<Rightarrow> QNetworkInterface \<Rightarrow> MdnsServer \<Rightarrow> MdnsServer" where
  "joinInterface os ipv4Bound ipv6Bound interface s =
     (if flags interface AND CanMulticast \<noteq> 0 then
        (case scanAddresses (allAddresses interface) (False, False) of
           (ipv4Address, ipv6Address) \<Rightarrow>
             (let s1 = (if ipv4Bound \<and> ipv6Address
                        then joinMulticastGroup os IPv4 MdnsIpv4Address interface s
                        else s);
                  s2 = (if ipv6Bound \<and> ipv6Address
                        then joinMulticastGroup os IPv6 MdnsIpv6Address interface s1
                        else s1)
              in s2))
      else s)"

fun joinInterfaces ::
  "Os \<Rightarrow> bool \<Rightarrow> bool \<Rightarrow> QNetworkInterface list \<Rightarrow> MdnsServer \<Rightarrow> MdnsServer" where
  "joinInterfaces os ipv4Bound ipv6Bound [] s = s"
| "joinInterfaces os ipv4Bound ipv6Bound (interface # rest) s =
     joinInterfaces os ipv4Bound ipv6Bound rest (joinInterface os ipv4Bound ipv6Bound interface s)"

definition onSocketTimeout :: "Platform \<Rightarrow> Os \<Rightarrow> MdnsServer \<Rightarrow> MdnsServer" where
  "onSocketTimeout p os s =
     (let s1 = (if state (mIpv4Socket s) \<noteq> BoundState then bindSocket p os IPv4 s else s);
          s2 = (if state (mIpv6Socket s1) \<noteq> BoundState then bindSocket p os IPv6 s1 else s1);
          ipv4Bound = (state (mIpv4Socket s2) = BoundState);
          ipv6Bound = (state (mIpv6Socket s2) = BoundState);
          s3 = (if ipv4Bound \<or> ipv6Bound then
                  (let s4 = joinInterfaces os ipv4Bound ipv6Bound (allInterfaces os) s2
                   in if \<not> mHostnameConfirmed s4
                      then checkHostname p IPv6
                             (checkHostname p IPv4
                                (s4\<lparr>mHostname := localHostName p @ ''.local.'',
                                    mHostnameSuffix := 1\<rparr>))
                      else s4)
                else s2)
      in s3\<lparr>mSocketTimer := Some (60 * 1000)\<rparr>)"

subsection \<open>\<open>onHostnameTimeout\<close>\<close>

definition onHostnameTimeout :: "MdnsServer \<Rightarrow> MdnsServer" where
  "onHostnameTimeout s =
     (let s1 = s\<lparr>mHostnameConfirmed := True\<rparr>
      in emit (HostnameConfirmed (mHostname s1)) s1)"

subsection \<open>\<open>onMessageReceived\<close>\<close>

text \<open>
  \<open>QString::arg\<close> applied to an integer prints it in decimal, with a minus sign when it is
  negative.
\<close>

definition digit :: "nat \<Rightarrow> char" where
  "digit d =
     (if d = 0 then CHR ''0'' else if d = 1 then CHR ''1'' else if d = 2 then CHR ''2''
      else if d = 3 then CHR ''3'' else if d = 4 then CHR ''4'' else if d = 5 then CHR ''5''
      else if d = 6 then CHR ''6'' else if d = 7 then CHR ''7'' else if d = 8 then CHR ''8''
      else CHR ''9'')"

function decimal :: "nat \<Rightarrow> string" where
  "decimal n = (if n < 10 then [digit n] else decimal (n div 10) @ [digit (n mod 10)])"
  by pat_completeness auto
termination
  by (relation "measure id") auto

declare decimal.simps [simp del]

definition number :: "int \<Rightarrow> string" where
  "number i = (if i < 0 then CHR ''-'' # decimal (nat (- i)) else decimal (nat i))"

text \<open>
  \<open>QString::arg\<close> applied to a string. A place marker is \<open>%\<close>, an optional \<open>L\<close>, and one
  or two decimal digits (the ASCII digits, characters being bytes here); \<open>arg\<close> replaces every marker that carries the lowest number found
  in the string and leaves the string as it is when it holds no marker. \<open>escape\<close> reads
  the digits of a marker and returns its number, the characters read and the rest;
  \<open>pieces\<close> cuts a string into plain characters and markers (a \<open>%\<close> that starts no
  marker is a plain character, and scanning resumes right after it).
\<close>

definition digitValue :: "char \<Rightarrow> nat option" where
  "digitValue =
     map_of [(CHR ''0'', 0), (CHR ''1'', 1), (CHR ''2'', 2), (CHR ''3'', 3), (CHR ''4'', 4),
             (CHR ''5'', 5), (CHR ''6'', 6), (CHR ''7'', 7), (CHR ''8'', 8), (CHR ''9'', 9)]"

datatype Piece = Text char | PlaceMarker nat string

definition escape :: "string \<Rightarrow> (nat \<times> string \<times> string) option" where
  "escape cs =
     (case cs of
        [] \<Rightarrow> None
      | c # rest \<Rightarrow>
          (case digitValue c of
             None \<Rightarrow> None
           | Some v \<Rightarrow>
               (case rest of
                  [] \<Rightarrow> Some (v, [c], [])
                | c2 # rest2 \<Rightarrow>
                    (case digitValue c2 of
                       None \<Rightarrow> Some (v, [c], rest)
                     | Some v2 \<Rightarrow> Some (10 * v + v2, [c, c2], rest2)))))"

definition localeEscape :: "string \<Rightarrow> (nat \<times> string \<times> string) option" where
  "localeEscape cs =
     (case cs of
        [] \<Rightarrow> None
      | c # rest \<Rightarrow>
          (if c = CHR ''L''
           then (case escape rest of
                   None \<Rightarrow> None
                 | Some (n, written, after) \<Rightarrow> Some (n, c # written, after))
           else escape cs))"

function pieces :: "string \<Rightarrow> Piece list" where
  "pieces [] = []"
| "pieces (c # cs) =
     (if c = CHR ''%'' then
        (case localeEscape cs of
           None \<Rightarrow> Text c # pieces cs
         | Some (n, written, after) \<Rightarrow> PlaceMarker n (c # written) # pieces after)
      else Text c # pieces cs)"
  by pat_completeness auto
termination
  by (relation "measure length")
     (auto simp: localeEscape_def escape_def split: list.splits option.splits if_splits)

fun markers :: "Piece list \<Rightarrow> nat list" where
  "markers [] = []"
| "markers (Text c # ps) = markers ps"
| "markers (PlaceMarker n written # ps) = n # markers ps"

fun fill :: "nat \<Rightarrow> string \<Rightarrow> Piece \<Rightarrow> string" where
  "fill lowest a (Text c) = [c]"
| "fill lowest a (PlaceMarker n written) = (if n = lowest then a else written)"

definition arg :: "string \<Rightarrow> string \<Rightarrow> string" where
  "arg s a =
     (case markers (pieces s) of
        [] \<Rightarrow> s
      | n # ns \<Rightarrow> concat (map (fill (fold min ns n) a) (pieces s)))"

text \<open>
  Lines 148 to 151: the suffix text is \<open>QString("-%1").arg(mHostnameSuffix++)\<close>, built
  from the counter, which is incremented after it is read; the candidate is
  \<open>QString("%1%2.local.").arg(QHostInfo::localHostName()).arg(suffix)\<close>, where the second
  \<open>arg\<close> works on the result of the first; then the probe goes out on both families.
\<close>

definition retry :: "Platform \<Rightarrow> MdnsServer \<Rightarrow> MdnsServer" where
  "retry p s =
     (let suffix = arg ''-%1'' (number (mHostnameSuffix s));
          s1 = s\<lparr>mHostnameSuffix := mHostnameSuffix s + 1\<rparr>;
          s2 = s1\<lparr>mHostname := arg (arg ''%1%2.local.'' (localHostName p)) suffix\<rparr>
      in checkHostname p IPv6 (checkHostname p IPv4 s2))"

text \<open>The condition of line 145 and 146.\<close>

definition conflicts :: "MdnsServer \<Rightarrow> DnsRecord \<Rightarrow> bool" where
  "conflicts s record \<longleftrightarrow>
     (r_type record = A \<or> r_type record = AAAA) \<and> r_name record = mHostname s \<and> r_ttl record \<noteq> 0"

text \<open>The loop over the records; \<open>break\<close> is the branch without a recursive call.\<close>

fun scanRecords :: "Platform \<Rightarrow> DnsRecord list \<Rightarrow> MdnsServer \<Rightarrow> MdnsServer" where
  "scanRecords p [] s = s"
| "scanRecords p (record # rest) s =
     (if conflicts s record then
        (if \<not> mHostnameConfirmed s then retry p s
         else scanRecords p rest s)
      else scanRecords p rest s)"

definition onMessageReceived :: "Platform \<Rightarrow> DnsMessage \<Rightarrow> MdnsServer \<Rightarrow> MdnsServer" where
  "onMessageReceived p message s =
     (if isResponse message then scanRecords p (records message) s else s)"

subsection \<open>\<open>onReadyRead\<close>\<close>

text \<open>
  \<open>sender\<close> is the socket that signalled; \<open>packet\<close>, \<open>addr\<close> and \<open>prt\<close> are what
  \<open>readDatagram\<close> returned from it. The signal \<open>messageReceived\<close> is connected to
  \<open>onMessageReceived\<close> in the constructor, so the slot runs when the signal is emitted.
\<close>

definition annotate :: "QHostAddress \<Rightarrow> 16 word \<Rightarrow> DnsMessage \<Rightarrow> DnsMessage" where
  "annotate addr prt message =
     message
       \<lparr>address := addr,
        protocol := (if addrProtocol addr = IPv4Protocol then IPv4 else IPv6),
        port := prt\<rparr>"

definition onReadyRead ::
  "Platform \<Rightarrow> Protocol \<Rightarrow> QByteArray \<Rightarrow> QHostAddress \<Rightarrow> 16 word \<Rightarrow> MdnsServer \<Rightarrow> MdnsServer" where
  "onReadyRead p sender packet addr prt s =
     (case fromPacket p packet of
        Some decoded \<Rightarrow>
          (let message = annotate addr prt decoded
           in onMessageReceived p message (emit (MessageReceived message) s))
      | None \<Rightarrow> s)"

subsection \<open>The constructor and the event loop\<close>

text \<open>
  The constructor initialises only \<open>mHostnameConfirmed\<close>; \<open>mHostnameSuffix\<close> starts with
  whatever value \<open>garbage\<close> the memory holds, the hostname is the empty string, the timers
  are stopped and the sockets unbound. It then runs \<open>onSocketTimeout\<close> once.
\<close>

definition initial :: "int \<Rightarrow> MdnsServer" where
  "initial garbage =
     \<lparr>mHostnameConfirmed = False, mHostname = [], mHostnameSuffix = garbage,
      mSocketTimer = None, mHostnameTimer = None,
      mIpv4Socket = \<lparr>state = UnconnectedState, memberships = {}\<rparr>,
      mIpv6Socket = \<lparr>state = UnconnectedState, memberships = {}\<rparr>,
      outputs = []\<rparr>"

definition MdnsServer_new :: "Platform \<Rightarrow> Os \<Rightarrow> int \<Rightarrow> MdnsServer" where
  "MdnsServer_new p os garbage = onSocketTimeout p os (initial garbage)"

text \<open>
  The events of the Qt event loop that reach the component. A single-shot timer fires only
  while it is running and is stopped when it fires; a socket signals \<open>readyRead\<close> only
  while it is bound. An event that cannot occur in the current state leaves it as it is.
\<close>

datatype Event =
  SocketTimerTimeout Os
  | HostnameTimerTimeout
  | ReadyRead Protocol QByteArray QHostAddress "16 word"

fun step :: "Platform \<Rightarrow> Event \<Rightarrow> MdnsServer \<Rightarrow> MdnsServer" where
  "step p (SocketTimerTimeout os) s =
     (if mSocketTimer s = None then s
      else onSocketTimeout p os (s\<lparr>mSocketTimer := None\<rparr>))"
| "step p HostnameTimerTimeout s =
     (if mHostnameTimer s = None then s
      else onHostnameTimeout (s\<lparr>mHostnameTimer := None\<rparr>))"
| "step p (ReadyRead sender packet addr prt) s =
     (if state (socket sender s) = BoundState then onReadyRead p sender packet addr prt s
      else s)"

fun run :: "Platform \<Rightarrow> Event list \<Rightarrow> MdnsServer \<Rightarrow> MdnsServer" where
  "run p [] s = s"
| "run p (e # es) s = run p es (step p e s)"

section \<open>Notions used in the statements\<close>

text \<open>The datagram that a probe for candidate \<open>h\<close> hands to the socket of family \<open>f\<close>.\<close>

definition probeDatagram :: "Platform \<Rightarrow> Protocol \<Rightarrow> string \<Rightarrow> Output" where
  "probeDatagram p f h =
     WriteDatagram f (toPacket p (probe f h))
       (if f = IPv4 then MdnsIpv4Address else MdnsIpv6Address) MdnsPort"

text \<open>The candidate that a retry builds when the counter stands at \<open>n\<close>.\<close>

definition nextCandidate :: "Platform \<Rightarrow> int \<Rightarrow> string" where
  "nextCandidate p n = arg (arg ''%1%2.local.'' (localHostName p)) (arg ''-%1'' (number n))"

text \<open>Whether \<open>bindSocket\<close> leaves the socket of family \<open>f\<close> bound.\<close>

definition bindOk :: "Platform \<Rightarrow> Os \<Rightarrow> Protocol \<Rightarrow> bool" where
  "bindOk p os f =
     (if Q_OS_UNIX p then bindShareAddress os f \<or> bindReuseAddressHint os f
      else bindReuseAddressHint os f)"

text \<open>Whether the socket of family \<open>f\<close> is bound once a maintenance run has tried to bind it.\<close>

definition boundAfter :: "Platform \<Rightarrow> Os \<Rightarrow> Protocol \<Rightarrow> MdnsServer \<Rightarrow> bool" where
  "boundAfter p os f s \<longleftrightarrow> state (socket f s) = BoundState \<or> bindOk p os f"

text \<open>
  Whether the probe of a maintenance run leaves bound a socket that the run's bind step left
  unbound: a probe is sent when some socket is bound and the hostname is unconfirmed, and the
  write binds the socket when the library does so.
\<close>

definition boundByProbe :: "Platform \<Rightarrow> Os \<Rightarrow> Protocol \<Rightarrow> MdnsServer \<Rightarrow> bool" where
  "boundByProbe p os f s \<longleftrightarrow>
     implicitBind p f \<and> (boundAfter p os IPv4 s \<or> boundAfter p os IPv6 s)
     \<and> mHostnameConfirmed s = False \<and> boundAfter p os f s = False"

text \<open>An interface carries an address of a family.\<close>

definition carries :: "NetworkLayerProtocol \<Rightarrow> QNetworkInterface \<Rightarrow> bool" where
  "carries proto interface = (\<exists>a\<in>set (allAddresses interface). addrProtocol a = proto)"

text \<open>
  The condition under which the loop body calls \<open>joinMulticastGroup\<close> on the IPv4 socket
  (line 94) and on the IPv6 socket (line 97), and the interfaces on which a pass over a list
  of interfaces makes each socket a member.
\<close>

definition joins4 :: "bool \<Rightarrow> QNetworkInterface \<Rightarrow> bool" where
  "joins4 ipv4Bound interface \<longleftrightarrow>
     flags interface AND CanMulticast \<noteq> 0 \<and> ipv4Bound \<and> carries IPv6Protocol interface"

definition joins6 :: "bool \<Rightarrow> QNetworkInterface \<Rightarrow> bool" where
  "joins6 ipv6Bound interface \<longleftrightarrow>
     flags interface AND CanMulticast \<noteq> 0 \<and> ipv6Bound \<and> carries IPv6Protocol interface"

definition granted4 :: "Os \<Rightarrow> bool \<Rightarrow> QNetworkInterface list \<Rightarrow> string set" where
  "granted4 os b4 ifs =
     set (map ifName (filter (\<lambda>i. joins4 b4 i \<and> joinGranted os IPv4 (ifName i)) ifs))"

definition granted6 :: "Os \<Rightarrow> bool \<Rightarrow> QNetworkInterface list \<Rightarrow> string set" where
  "granted6 os b6 ifs =
     set (map ifName (filter (\<lambda>i. joins6 b6 i \<and> joinGranted os IPv6 (ifName i)) ifs))"

text \<open>The number of \<open>hostnameConfirmed\<close> signals emitted so far.\<close>

fun isConfirmation :: "Output \<Rightarrow> bool" where
  "isConfirmation (HostnameConfirmed n) = True"
| "isConfirmation out = False"

definition confirmations :: "MdnsServer \<Rightarrow> nat" where
  "confirmations s = length (filter isConfirmation (outputs s))"

text \<open>One while the hostname timer is running, zero otherwise.\<close>

definition pending :: "MdnsServer \<Rightarrow> nat" where
  "pending s = (if mHostnameTimer s = None then 0 else 1)"

fun isMaintenance :: "Event \<Rightarrow> bool" where
  "isMaintenance (SocketTimerTimeout os) = True"
| "isMaintenance e = False"

text \<open>The address family of the socket of a family.\<close>

fun familyProtocol :: "Protocol \<Rightarrow> NetworkLayerProtocol" where
  "familyProtocol IPv4 = IPv4Protocol"
| "familyProtocol IPv6 = IPv6Protocol"

text \<open>
  How the candidate follows the counter: nothing was ever bound and there is no candidate
  yet, or the counter is 1 and the candidate is the bare name, or the counter is \<open>n \<ge> 2\<close>
  and the candidate carries the suffix \<open>n - 1\<close>.
\<close>

definition candidateMatches :: "Platform \<Rightarrow> MdnsServer \<Rightarrow> bool" where
  "candidateMatches p s \<longleftrightarrow>
     (state (mIpv4Socket s) = UnconnectedState \<and> state (mIpv6Socket s) = UnconnectedState
        \<and> mHostname s = [])
     \<or> (mHostnameSuffix s = 1 \<and> mHostname s = localHostName p @ ''.local.'')
     \<or> (2 \<le> mHostnameSuffix s
        \<and> mHostname s = localHostName p @ ''-'' @ number (mHostnameSuffix s - 1) @ ''.local.'')"

section \<open>A small network\<close>

text \<open>
  A machine called \<open>host\<close>, whose library binds an unbound socket on a write, with a toy
  codec (the packet \<open>[1]\<close> is a response that claims
  \<open>host.local.\<close>, the packet \<open>[2]\<close> one that claims \<open>host-1.local.\<close>, nothing else
  decodes), an operating system that grants every bind and every join, and one that refuses
  every bind.
\<close>

definition answer :: "RecordType \<Rightarrow> string \<Rightarrow> 32 word \<Rightarrow> DnsRecord" where
  "answer t n ttl = \<lparr>r_type = t, r_name = n, r_ttl = ttl\<rparr>"

definition response :: "DnsRecord list \<Rightarrow> DnsMessage" where
  "response rs = DnsMessage_new\<lparr>isResponse := True, records := rs\<rparr>"

definition exampleDecode :: "QByteArray \<Rightarrow> DnsMessage option" where
  "exampleDecode packet =
     (if packet = [1] then Some (response [answer A ''host.local.'' 120])
      else if packet = [2] then Some (response [answer A ''host-1.local.'' 120])
      else None)"

definition host :: Platform where
  "host = \<lparr>toPacket = (\<lambda>message. []), fromPacket = exampleDecode,
            localHostName = ''host'', Q_OS_UNIX = True, implicitBind = (\<lambda>f. True)\<rparr>"

text \<open>The same machine under a name that holds a place marker.\<close>

definition marked :: Platform where
  "marked = host\<lparr>localHostName := ''a%1b''\<rparr>"

definition osWith :: "QNetworkInterface list \<Rightarrow> Os" where
  "osWith ifs =
     \<lparr>allInterfaces = ifs, bindShareAddress = (\<lambda>f. True), setsockoptError = (\<lambda>f. None),
      bindReuseAddressHint = (\<lambda>f. True), errorString = (\<lambda>f. []),
      joinGranted = (\<lambda>f i. True)\<rparr>"

definition osNoBind :: Os where
  "osNoBind =
     \<lparr>allInterfaces = [], bindShareAddress = (\<lambda>f. False), setsockoptError = (\<lambda>f. None),
      bindReuseAddressHint = (\<lambda>f. False), errorString = (\<lambda>f. ''address in use''),
      joinGranted = (\<lambda>f i. True)\<rparr>"

definition peer4 :: QHostAddress where
  "peer4 = \<lparr>addrProtocol = IPv4Protocol, addrText = ''192.168.1.7''\<rparr>"

text \<open>
  Two multicast-capable interfaces (up, running, broadcast, multicast): one with an IPv6
  address only, one with an IPv4 address only.
\<close>

definition v6only :: QNetworkInterface where
  "v6only = \<lparr>ifName = ''eth0'', flags = 0x27,
              allAddresses = [\<lparr>addrProtocol = IPv6Protocol, addrText = ''fe80::1''\<rparr>]\<rparr>"

definition v4only :: QNetworkInterface where
  "v4only = \<lparr>ifName = ''eth0'', flags = 0x27,
              allAddresses = [\<lparr>addrProtocol = IPv4Protocol, addrText = ''192.168.1.2''\<rparr>]\<rparr>"

text \<open>The component on \<open>host\<close> right after its constructor, both sockets bound.\<close>

definition started :: MdnsServer where
  "started = MdnsServer_new host (osWith []) 0"

text \<open>The state right after the hostname timer has fired, had it been started.\<close>

definition fired :: MdnsServer where
  "fired = step host HostnameTimerTimeout (started\<lparr>mHostnameTimer := Some 2000\<rparr>)"

section \<open>What each member function changes\<close>

lemma emit_frame [simp]:
  "mHostnameConfirmed (emit out s) = mHostnameConfirmed s"
  "mHostname (emit out s) = mHostname s"
  "mHostnameSuffix (emit out s) = mHostnameSuffix s"
  "mSocketTimer (emit out s) = mSocketTimer s"
  "mHostnameTimer (emit out s) = mHostnameTimer s"
  "mIpv4Socket (emit out s) = mIpv4Socket s"
  "mIpv6Socket (emit out s) = mIpv6Socket s"
  "outputs (emit out s) = outputs s @ [out]"
  by (simp_all add: emit_def)

lemma socket_emit [simp]: "socket f (emit out s) = socket f s"
  by (cases f) (simp_all add: socket_def)

lemma setSocket_frame [simp]:
  "mHostnameConfirmed (setSocket f k s) = mHostnameConfirmed s"
  "mHostname (setSocket f k s) = mHostname s"
  "mHostnameSuffix (setSocket f k s) = mHostnameSuffix s"
  "mSocketTimer (setSocket f k s) = mSocketTimer s"
  "mHostnameTimer (setSocket f k s) = mHostnameTimer s"
  "outputs (setSocket f k s) = outputs s"
  by (cases f; simp add: setSocket_def)+

lemma writeDatagram_frame [simp]:
  "mHostnameConfirmed (writeDatagram p f pkt a prt s) = mHostnameConfirmed s"
  "mHostname (writeDatagram p f pkt a prt s) = mHostname s"
  "mHostnameSuffix (writeDatagram p f pkt a prt s) = mHostnameSuffix s"
  "mSocketTimer (writeDatagram p f pkt a prt s) = mSocketTimer s"
  "mHostnameTimer (writeDatagram p f pkt a prt s) = mHostnameTimer s"
  "outputs (writeDatagram p f pkt a prt s) = outputs s @ [WriteDatagram f pkt a prt]"
  by (simp_all add: writeDatagram_def Let_def)

lemma writeDatagram_IPv4 [simp]:
  "mIpv4Socket (writeDatagram p IPv4 pkt a prt s) =
     (if state (mIpv4Socket s) = UnconnectedState \<and> implicitBind p IPv4
      then (mIpv4Socket s)\<lparr>state := BoundState\<rparr> else mIpv4Socket s)"
  "mIpv6Socket (writeDatagram p IPv4 pkt a prt s) = mIpv6Socket s"
  by (simp_all add: writeDatagram_def setSocket_def socket_def Let_def)

lemma writeDatagram_IPv6 [simp]:
  "mIpv6Socket (writeDatagram p IPv6 pkt a prt s) =
     (if state (mIpv6Socket s) = UnconnectedState \<and> implicitBind p IPv6
      then (mIpv6Socket s)\<lparr>state := BoundState\<rparr> else mIpv6Socket s)"
  "mIpv4Socket (writeDatagram p IPv6 pkt a prt s) = mIpv4Socket s"
  by (simp_all add: writeDatagram_def setSocket_def socket_def Let_def)

lemma sendMessage_write:
  "sendMessage p message s =
     writeDatagram p (protocol message) (toPacket p message) (address message) (port message) s"
  by (cases "protocol message") (simp_all add: sendMessage_def)

lemma probe_fields [simp]:
  "protocol (probe f h) = f"
  "port (probe f h) = MdnsPort"
  "address (probe f h) = (if f = IPv4 then MdnsIpv4Address else MdnsIpv6Address)"
  "queries (probe f h) = [\<lparr>q_name = h, q_type = A\<rparr>]"
  "records (probe f h) = []"
  "isResponse (probe f h) = False"
  by (simp_all add: probe_def DnsMessage_new_def)

lemma checkHostname_write:
  "checkHostname p f s =
     writeDatagram p f (toPacket p (probe f (mHostname s)))
       (if f = IPv4 then MdnsIpv4Address else MdnsIpv6Address) MdnsPort s"
  by (simp add: checkHostname_def sendMessage_write)

lemma checkHostname_frame [simp]:
  "mHostnameConfirmed (checkHostname p f s) = mHostnameConfirmed s"
  "mHostname (checkHostname p f s) = mHostname s"
  "mHostnameSuffix (checkHostname p f s) = mHostnameSuffix s"
  "mSocketTimer (checkHostname p f s) = mSocketTimer s"
  "mHostnameTimer (checkHostname p f s) = mHostnameTimer s"
  "outputs (checkHostname p f s) = outputs s @ [probeDatagram p f (mHostname s)]"
  by (simp_all add: checkHostname_write probeDatagram_def)

lemma checkHostname_IPv4 [simp]:
  "mIpv4Socket (checkHostname p IPv4 s) =
     (if state (mIpv4Socket s) = UnconnectedState \<and> implicitBind p IPv4
      then (mIpv4Socket s)\<lparr>state := BoundState\<rparr> else mIpv4Socket s)"
  "mIpv6Socket (checkHostname p IPv4 s) = mIpv6Socket s"
  by (simp_all add: checkHostname_write)

lemma checkHostname_IPv6 [simp]:
  "mIpv6Socket (checkHostname p IPv6 s) =
     (if state (mIpv6Socket s) = UnconnectedState \<and> implicitBind p IPv6
      then (mIpv6Socket s)\<lparr>state := BoundState\<rparr> else mIpv6Socket s)"
  "mIpv4Socket (checkHostname p IPv6 s) = mIpv4Socket s"
  by (simp_all add: checkHostname_write)

lemma retry_frame [simp]:
  "mHostnameConfirmed (retry p s) = mHostnameConfirmed s"
  "mHostname (retry p s) = nextCandidate p (mHostnameSuffix s)"
  "mHostnameSuffix (retry p s) = mHostnameSuffix s + 1"
  "mSocketTimer (retry p s) = mSocketTimer s"
  "mHostnameTimer (retry p s) = mHostnameTimer s"
  "outputs (retry p s) =
     outputs s @
       [probeDatagram p IPv4 (nextCandidate p (mHostnameSuffix s)),
        probeDatagram p IPv6 (nextCandidate p (mHostnameSuffix s))]"
  by (simp_all add: retry_def nextCandidate_def Let_def)

text \<open>What \<open>arg\<close> does to the two patterns of lines 148 and 149.\<close>

lemma arg_suffix: "arg ''-%1'' a = ''-'' @ a"
  by (simp add: arg_def localeEscape_def escape_def digitValue_def)

lemma arg_name: "arg ''%1%2.local.'' a = a @ ''%2.local.''"
  by (simp add: arg_def localeEscape_def escape_def digitValue_def)

lemma pieces_plain: "CHR ''%'' \<notin> set xs \<Longrightarrow> pieces (xs @ ys) = map Text xs @ pieces ys"
  by (induction xs) auto

lemma markers_Text [simp]: "markers (map Text xs @ ps) = markers ps"
  by (induction xs) simp_all

lemma fill_Text [simp]: "concat (map (fill m a \<circ> Text) xs) = xs"
  by (induction xs) simp_all

lemma arg_plain: "CHR ''%'' \<notin> set xs \<Longrightarrow> arg (xs @ ''%2.local.'') a = xs @ a @ ''.local.''"
  by (simp add: arg_def pieces_plain localeEscape_def escape_def digitValue_def)

lemma nextCandidate_plain:
  "CHR ''%'' \<notin> set (localHostName p) \<Longrightarrow>
     nextCandidate p n = localHostName p @ ''-'' @ number n @ ''.local.''"
  by (simp add: nextCandidate_def arg_name arg_suffix arg_plain)

lemma scanRecords_none:
  "\<forall>r\<in>set rs. \<not> conflicts s r \<Longrightarrow> scanRecords p rs s = s"
  by (induction rs) simp_all

lemma scanRecords_confirmed:
  "mHostnameConfirmed s \<Longrightarrow> scanRecords p rs s = s"
  by (induction rs) simp_all

lemma scanRecords_retry:
  "\<not> mHostnameConfirmed s \<Longrightarrow> \<exists>r\<in>set rs. conflicts s r \<Longrightarrow> scanRecords p rs s = retry p s"
  by (induction rs) auto

lemma scanRecords_cases:
  "scanRecords p rs s =
     (if \<not> mHostnameConfirmed s \<and> (\<exists>r\<in>set rs. conflicts s r) then retry p s else s)"
  using scanRecords_none scanRecords_confirmed scanRecords_retry by (metis (full_types))

lemma scanAddresses_eq:
  "scanAddresses as (b4, b6) =
     (b4 \<or> (\<exists>a\<in>set as. addrProtocol a = IPv4Protocol),
      b6 \<or> (\<exists>a\<in>set as. addrProtocol a = IPv6Protocol))"
  by (induction as arbitrary: b4 b6) auto

lemma bindSocket_frame [simp]:
  "mHostnameConfirmed (bindSocket p os f s) = mHostnameConfirmed s"
  "mHostname (bindSocket p os f s) = mHostname s"
  "mHostnameSuffix (bindSocket p os f s) = mHostnameSuffix s"
  "mSocketTimer (bindSocket p os f s) = mSocketTimer s"
  "mHostnameTimer (bindSocket p os f s) = mHostnameTimer s"
  by (cases f; simp add: bindSocket_def bindReuse_def setSocket_def socket_def Let_def
        split: option.splits)+

lemma bindSocket_IPv4 [simp]:
  "mIpv4Socket (bindSocket p os IPv4 s) =
     (if bindOk p os IPv4 then (mIpv4Socket s)\<lparr>state := BoundState\<rparr> else mIpv4Socket s)"
  "mIpv6Socket (bindSocket p os IPv4 s) = mIpv6Socket s"
  by (simp_all add: bindSocket_def bindReuse_def setSocket_def socket_def Let_def bindOk_def
        split: option.splits)

lemma bindSocket_IPv6 [simp]:
  "mIpv6Socket (bindSocket p os IPv6 s) =
     (if bindOk p os IPv6 then (mIpv6Socket s)\<lparr>state := BoundState\<rparr> else mIpv6Socket s)"
  "mIpv4Socket (bindSocket p os IPv6 s) = mIpv4Socket s"
  by (simp_all add: bindSocket_def bindReuse_def setSocket_def socket_def Let_def bindOk_def
        split: option.splits)

lemma joinInterface_eq:
  "joinInterface os b4 b6 i s =
     (let s1 = (if joins4 b4 i then joinMulticastGroup os IPv4 MdnsIpv4Address i s else s)
      in if joins6 b6 i then joinMulticastGroup os IPv6 MdnsIpv6Address i s1 else s1)"
  by (auto simp: joinInterface_def scanAddresses_eq joins4_def joins6_def carries_def Let_def)

lemma joinMulticastGroup_frame [simp]:
  "mHostnameConfirmed (joinMulticastGroup os f g i s) = mHostnameConfirmed s"
  "mHostname (joinMulticastGroup os f g i s) = mHostname s"
  "mHostnameSuffix (joinMulticastGroup os f g i s) = mHostnameSuffix s"
  "mSocketTimer (joinMulticastGroup os f g i s) = mSocketTimer s"
  "mHostnameTimer (joinMulticastGroup os f g i s) = mHostnameTimer s"
  "outputs (joinMulticastGroup os f g i s) = outputs s @ [JoinMulticastGroup f g (ifName i)]"
  by (cases f; simp add: joinMulticastGroup_def setSocket_def socket_def Let_def)+

lemma joinMulticastGroup_IPv4 [simp]:
  "mIpv4Socket (joinMulticastGroup os IPv4 g i s) =
     (if joinGranted os IPv4 (ifName i)
      then (mIpv4Socket s)\<lparr>memberships := insert (ifName i) (memberships (mIpv4Socket s))\<rparr>
      else mIpv4Socket s)"
  "mIpv6Socket (joinMulticastGroup os IPv4 g i s) = mIpv6Socket s"
  by (simp_all add: joinMulticastGroup_def setSocket_def socket_def Let_def)

lemma joinMulticastGroup_IPv6 [simp]:
  "mIpv6Socket (joinMulticastGroup os IPv6 g i s) =
     (if joinGranted os IPv6 (ifName i)
      then (mIpv6Socket s)\<lparr>memberships := insert (ifName i) (memberships (mIpv6Socket s))\<rparr>
      else mIpv6Socket s)"
  "mIpv4Socket (joinMulticastGroup os IPv6 g i s) = mIpv4Socket s"
  by (simp_all add: joinMulticastGroup_def setSocket_def socket_def Let_def)

lemma joinInterface_frame [simp]:
  "mHostnameConfirmed (joinInterface os b4 b6 i s) = mHostnameConfirmed s"
  "mHostname (joinInterface os b4 b6 i s) = mHostname s"
  "mHostnameSuffix (joinInterface os b4 b6 i s) = mHostnameSuffix s"
  "mSocketTimer (joinInterface os b4 b6 i s) = mSocketTimer s"
  "mHostnameTimer (joinInterface os b4 b6 i s) = mHostnameTimer s"
  by (simp_all add: joinInterface_eq Let_def)

lemma joinInterfaces_frame [simp]:
  "mHostnameConfirmed (joinInterfaces os b4 b6 ifs s) = mHostnameConfirmed s"
  "mHostname (joinInterfaces os b4 b6 ifs s) = mHostname s"
  "mHostnameSuffix (joinInterfaces os b4 b6 ifs s) = mHostnameSuffix s"
  "mSocketTimer (joinInterfaces os b4 b6 ifs s) = mSocketTimer s"
  "mHostnameTimer (joinInterfaces os b4 b6 ifs s) = mHostnameTimer s"
  by (induction ifs arbitrary: s; simp)+

lemma joinInterface_sockets:
  "mIpv4Socket (joinInterface os b4 b6 i s) =
     (mIpv4Socket s)\<lparr>memberships := memberships (mIpv4Socket s) \<union> granted4 os b4 [i]\<rparr>"
  "mIpv6Socket (joinInterface os b4 b6 i s) =
     (mIpv6Socket s)\<lparr>memberships := memberships (mIpv6Socket s) \<union> granted6 os b6 [i]\<rparr>"
  by (simp_all add: joinInterface_eq Let_def granted4_def granted6_def)

lemma granted_Cons:
  "granted4 os b4 (i # ifs) = granted4 os b4 [i] \<union> granted4 os b4 ifs"
  "granted6 os b6 (i # ifs) = granted6 os b6 [i] \<union> granted6 os b6 ifs"
  by (auto simp: granted4_def granted6_def)

lemma granted_Nil [simp]: "granted4 os b4 [] = {}" "granted6 os b6 [] = {}"
  by (simp_all add: granted4_def granted6_def)

lemma joinInterfaces_sockets:
  "mIpv4Socket (joinInterfaces os b4 b6 ifs s) =
     (mIpv4Socket s)\<lparr>memberships := memberships (mIpv4Socket s) \<union> granted4 os b4 ifs\<rparr>"
  "mIpv6Socket (joinInterfaces os b4 b6 ifs s) =
     (mIpv6Socket s)\<lparr>memberships := memberships (mIpv6Socket s) \<union> granted6 os b6 ifs\<rparr>"
proof (induction ifs arbitrary: s)
  case Nil
  { case 1 show ?case by simp }
  { case 2 show ?case by simp }
next
  case (Cons i ifs)
  { case 1 show ?case
      by (simp add: Cons.IH(1) joinInterface_sockets granted_Cons [of os b4 i ifs] Un_assoc) }
  { case 2 show ?case
      by (simp add: Cons.IH(2) joinInterface_sockets granted_Cons [of os b6 i ifs] Un_assoc) }
qed

lemma onSocketTimeout_frame [simp]:
  "mHostnameConfirmed (onSocketTimeout p os s) = mHostnameConfirmed s"
  "mHostnameTimer (onSocketTimeout p os s) = mHostnameTimer s"
  "mSocketTimer (onSocketTimeout p os s) = Some 60000"
  by (simp_all add: onSocketTimeout_def Let_def)

lemma SocketState_not_Bound: "(k \<noteq> BoundState) = (k = UnconnectedState)"
  by (cases k) simp_all

lemma state_update_same:
  "state k = v \<Longrightarrow> k\<lparr>state := v, memberships := m\<rparr> = k\<lparr>memberships := m\<rparr>"
  by (cases k) simp

lemma onSocketTimeout_IPv4:
  "mIpv4Socket (onSocketTimeout p os s) =
     (mIpv4Socket s)
       \<lparr>state := (if boundAfter p os IPv4 s \<or> boundByProbe p os IPv4 s
                  then BoundState else state (mIpv4Socket s)),
        memberships := memberships (mIpv4Socket s) \<union>
          (if boundAfter p os IPv4 s \<or> boundAfter p os IPv6 s
           then granted4 os (boundAfter p os IPv4 s) (allInterfaces os) else {})\<rparr>"
  by (cases "state (mIpv4Socket s)"; cases "state (mIpv6Socket s)")
     (auto simp: onSocketTimeout_def Let_def joinInterfaces_sockets boundAfter_def
        boundByProbe_def socket_def state_update_same)

lemma onSocketTimeout_IPv6:
  "mIpv6Socket (onSocketTimeout p os s) =
     (mIpv6Socket s)
       \<lparr>state := (if boundAfter p os IPv6 s \<or> boundByProbe p os IPv6 s
                  then BoundState else state (mIpv6Socket s)),
        memberships := memberships (mIpv6Socket s) \<union>
          (if boundAfter p os IPv4 s \<or> boundAfter p os IPv6 s
           then granted6 os (boundAfter p os IPv6 s) (allInterfaces os) else {})\<rparr>"
  by (cases "state (mIpv4Socket s)"; cases "state (mIpv6Socket s)")
     (auto simp: onSocketTimeout_def Let_def joinInterfaces_sockets boundAfter_def
        boundByProbe_def socket_def state_update_same)

lemma onSocketTimeout_candidate:
  "mHostname (onSocketTimeout p os s) =
     (if (boundAfter p os IPv4 s \<or> boundAfter p os IPv6 s) \<and> \<not> mHostnameConfirmed s
      then localHostName p @ ''.local.'' else mHostname s)"
  "mHostnameSuffix (onSocketTimeout p os s) =
     (if (boundAfter p os IPv4 s \<or> boundAfter p os IPv6 s) \<and> \<not> mHostnameConfirmed s
      then 1 else mHostnameSuffix s)"
  by (simp_all add: onSocketTimeout_def Let_def boundAfter_def socket_def)

subsection \<open>The small network\<close>

lemma host_fields [simp]:
  "localHostName host = ''host''" "toPacket host = (\<lambda>message. [])"
  "fromPacket host = exampleDecode" "Q_OS_UNIX host" "implicitBind host f"
  by (simp_all add: host_def)

lemma marked_fields [simp]:
  "localHostName marked = ''a%1b''" "toPacket marked = (\<lambda>message. [])"
  "fromPacket marked = exampleDecode" "Q_OS_UNIX marked" "implicitBind marked f"
  by (simp_all add: marked_def host_def)

lemma bindOk_osWith [simp]: "bindOk host (osWith ifs) f"
  by (simp add: bindOk_def osWith_def)

lemma osWith_fields [simp]:
  "allInterfaces (osWith ifs) = ifs" "joinGranted (osWith ifs) f i"
  by (simp_all add: osWith_def)

lemma new_host:
  "mHostname (MdnsServer_new host (osWith ifs) g) = ''host.local.''"
  "mHostnameSuffix (MdnsServer_new host (osWith ifs) g) = 1"
  "mHostnameConfirmed (MdnsServer_new host (osWith ifs) g) = False"
  "mHostnameTimer (MdnsServer_new host (osWith ifs) g) = None"
  "state (mIpv4Socket (MdnsServer_new host (osWith ifs) g)) = BoundState"
  "state (mIpv6Socket (MdnsServer_new host (osWith ifs) g)) = BoundState"
  by (simp_all add: MdnsServer_new_def onSocketTimeout_candidate onSocketTimeout_IPv4
        onSocketTimeout_IPv6 boundAfter_def initial_def)

lemma number_1: "number 1 = ''1''"
  by (simp add: number_def decimal.simps digit_def)

lemma nextCandidate_host_1: "nextCandidate host 1 = ''host-1.local.''"
  by (simp add: nextCandidate_plain number_1)

lemma started_fields [simp]:
  "mHostname started = ''host.local.''"
  "mHostnameSuffix started = 1"
  "mHostnameConfirmed started = False"
  "mHostnameTimer started = None"
  "mSocketTimer started = Some 60000"
  "state (mIpv4Socket started) = BoundState"
  "state (mIpv6Socket started) = BoundState"
  by (simp_all add: started_def new_host) (simp add: MdnsServer_new_def)

lemma socket_started [simp]: "state (socket f started) = BoundState"
  by (cases f) (simp_all add: socket_def)

lemma decode_1 [simp]: "exampleDecode [1] = Some (response [answer A ''host.local.'' 120])"
  by (simp add: exampleDecode_def)

lemma decode_2 [simp]: "exampleDecode [2] = Some (response [answer A ''host-1.local.'' 120])"
  by (simp add: exampleDecode_def)

lemma response_fields [simp]:
  "isResponse (response rs)" "records (response rs) = rs"
  by (simp_all add: response_def)

lemma conflicts_answer [simp]:
  "conflicts s (answer t n ttl) \<longleftrightarrow> (t = A \<or> t = AAAA) \<and> n = mHostname s \<and> ttl \<noteq> 0"
  by (simp add: conflicts_def answer_def)

subsection \<open>The handlers of inbound messages and of the hostname timer\<close>

lemma annotate_fields [simp]:
  "address (annotate a prt d) = a"
  "port (annotate a prt d) = prt"
  "protocol (annotate a prt d) = (if addrProtocol a = IPv4Protocol then IPv4 else IPv6)"
  "isResponse (annotate a prt d) = isResponse d"
  "records (annotate a prt d) = records d"
  "queries (annotate a prt d) = queries d"
  by (simp_all add: annotate_def)

lemma conflicts_emit [simp]: "conflicts (emit out s) r = conflicts s r"
  by (simp add: conflicts_def)

lemma onMessageReceived_cases:
  "onMessageReceived p m s =
     (if isResponse m \<and> \<not> mHostnameConfirmed s \<and> (\<exists>r\<in>set (records m). conflicts s r)
      then retry p s else s)"
  by (simp add: onMessageReceived_def scanRecords_cases)

lemma onMessageReceived_frame [simp]:
  "mHostnameConfirmed (onMessageReceived p m s) = mHostnameConfirmed s"
  "mSocketTimer (onMessageReceived p m s) = mSocketTimer s"
  "mHostnameTimer (onMessageReceived p m s) = mHostnameTimer s"
  by (simp_all add: onMessageReceived_cases)

lemma onMessageReceived_outputs:
  "take (Suc (length (outputs s))) (outputs (onMessageReceived p m (emit out s))) = outputs s @ [out]"
  by (simp add: onMessageReceived_cases)

lemma onReadyRead_frame [simp]:
  "mHostnameConfirmed (onReadyRead p k pkt a prt s) = mHostnameConfirmed s"
  "mSocketTimer (onReadyRead p k pkt a prt s) = mSocketTimer s"
  "mHostnameTimer (onReadyRead p k pkt a prt s) = mHostnameTimer s"
  by (simp_all add: onReadyRead_def Let_def split: option.splits)

lemma onReadyRead_candidate:
  "fromPacket p pkt = Some d \<Longrightarrow>
   mHostname (onReadyRead p k pkt a prt s) =
     (if isResponse d \<and> \<not> mHostnameConfirmed s \<and> (\<exists>r\<in>set (records d). conflicts s r)
      then nextCandidate p (mHostnameSuffix s) else mHostname s)"
  "fromPacket p pkt = Some d \<Longrightarrow>
   mHostnameSuffix (onReadyRead p k pkt a prt s) =
     (if isResponse d \<and> \<not> mHostnameConfirmed s \<and> (\<exists>r\<in>set (records d). conflicts s r)
      then mHostnameSuffix s + 1 else mHostnameSuffix s)"
  by (auto simp: onReadyRead_def onMessageReceived_cases Let_def)

lemma onReadyRead_bound:
  "state (socket f s) = BoundState \<Longrightarrow>
     state (socket f (onReadyRead p k pkt a prt s)) = BoundState"
  by (cases f)
     (simp_all add: socket_def onReadyRead_def onMessageReceived_cases retry_def Let_def
        split: option.splits)

lemma onHostnameTimeout_frame [simp]:
  "mHostnameConfirmed (onHostnameTimeout s) = True"
  "mHostname (onHostnameTimeout s) = mHostname s"
  "mHostnameSuffix (onHostnameTimeout s) = mHostnameSuffix s"
  "mSocketTimer (onHostnameTimeout s) = mSocketTimer s"
  "mHostnameTimer (onHostnameTimeout s) = mHostnameTimer s"
  "mIpv4Socket (onHostnameTimeout s) = mIpv4Socket s"
  "mIpv6Socket (onHostnameTimeout s) = mIpv6Socket s"
  "outputs (onHostnameTimeout s) = outputs s @ [HostnameConfirmed (mHostname s)]"
  by (simp_all add: onHostnameTimeout_def Let_def)

subsection \<open>The event loop\<close>

lemma step_ReadyRead_frame [simp]:
  "mHostnameConfirmed (step p (ReadyRead k pkt a prt) s) = mHostnameConfirmed s"
  "mSocketTimer (step p (ReadyRead k pkt a prt) s) = mSocketTimer s"
  "mHostnameTimer (step p (ReadyRead k pkt a prt) s) = mHostnameTimer s"
  by simp_all

lemma step_ReadyRead_bound:
  "state (socket k s) = BoundState \<Longrightarrow>
     step p (ReadyRead k pkt a prt) s = onReadyRead p k pkt a prt s"
  by simp

lemma step_SocketTimerTimeout:
  "mSocketTimer s = Some t \<Longrightarrow>
     step p (SocketTimerTimeout os) s = onSocketTimeout p os (s\<lparr>mSocketTimer := None\<rparr>)"
  by simp

text \<open>No member function starts the hostname timer, so a stopped timer stays stopped.\<close>

lemma step_hostnameTimer:
  "mHostnameTimer s = None \<Longrightarrow> mHostnameTimer (step p e s) = None"
  by (cases e) simp_all

lemma step_unconfirmed:
  "mHostnameTimer s = None \<Longrightarrow> mHostnameConfirmed (step p e s) = mHostnameConfirmed s"
  by (cases e) simp_all

lemma run_never_armed:
  "mHostnameTimer s = None \<Longrightarrow>
     mHostnameTimer (run p es s) = None \<and> mHostnameConfirmed (run p es s) = mHostnameConfirmed s"
  by (induction es arbitrary: s) (simp_all add: step_hostnameTimer step_unconfirmed)

lemma new_never_armed:
  "mHostnameTimer (MdnsServer_new p os g) = None" "\<not> mHostnameConfirmed (MdnsServer_new p os g)"
  by (simp_all add: MdnsServer_new_def initial_def)

subsection \<open>Counting the confirmations\<close>

lemma confirmations_emit [simp]:
  "confirmations (emit out s) = confirmations s + (if isConfirmation out then 1 else 0)"
  by (simp add: confirmations_def)

lemma confirmations_update [simp]:
  "confirmations (s\<lparr>mHostnameConfirmed := c\<rparr>) = confirmations s"
  "confirmations (s\<lparr>mHostname := h\<rparr>) = confirmations s"
  "confirmations (s\<lparr>mHostnameSuffix := n\<rparr>) = confirmations s"
  "confirmations (s\<lparr>mSocketTimer := t\<rparr>) = confirmations s"
  "confirmations (s\<lparr>mHostnameTimer := t\<rparr>) = confirmations s"
  "confirmations (s\<lparr>mIpv4Socket := k\<rparr>) = confirmations s"
  "confirmations (s\<lparr>mIpv6Socket := k\<rparr>) = confirmations s"
  by (simp_all add: confirmations_def)

lemma confirmations_setSocket [simp]: "confirmations (setSocket f k s) = confirmations s"
  by (cases f) (simp_all add: setSocket_def)

lemma confirmations_checkHostname [simp]: "confirmations (checkHostname p f s) = confirmations s"
  by (simp add: checkHostname_write writeDatagram_def Let_def)

lemma confirmations_retry [simp]: "confirmations (retry p s) = confirmations s"
  by (simp add: retry_def Let_def)

lemma confirmations_bindSocket [simp]: "confirmations (bindSocket p os f s) = confirmations s"
  by (simp add: bindSocket_def bindReuse_def Let_def split: option.splits)

lemma confirmations_joinMulticastGroup [simp]:
  "confirmations (joinMulticastGroup os f g i s) = confirmations s"
  by (simp add: joinMulticastGroup_def Let_def)

lemma confirmations_joinInterface [simp]:
  "confirmations (joinInterface os b4 b6 i s) = confirmations s"
  by (simp add: joinInterface_eq Let_def)

lemma confirmations_joinInterfaces [simp]:
  "confirmations (joinInterfaces os b4 b6 ifs s) = confirmations s"
  by (induction ifs arbitrary: s) simp_all

lemma confirmations_onSocketTimeout [simp]:
  "confirmations (onSocketTimeout p os s) = confirmations s"
  by (simp add: onSocketTimeout_def Let_def)

lemma confirmations_onMessageReceived [simp]:
  "confirmations (onMessageReceived p m s) = confirmations s"
  by (simp add: onMessageReceived_cases)

lemma confirmations_onReadyRead [simp]:
  "confirmations (onReadyRead p k pkt a prt s) = confirmations s"
  by (simp add: onReadyRead_def Let_def split: option.splits)

lemma confirmations_onHostnameTimeout [simp]:
  "confirmations (onHostnameTimeout s) = confirmations s + 1"
  by (simp add: onHostnameTimeout_def Let_def)

lemma confirmations_new [simp]: "confirmations (MdnsServer_new p os g) = 0"
  by (simp add: MdnsServer_new_def) (simp add: confirmations_def initial_def)

lemma confirmations_started [simp]: "confirmations started = 0"
  by (simp add: started_def)

text \<open>
  Each firing of the single-shot timer uses the timer up: the confirmations emitted plus the
  one still pending stay constant.
\<close>

lemma step_confirmations:
  "confirmations (step p e s) + pending (step p e s) = confirmations s + pending s"
  by (cases e) (simp_all add: pending_def)

lemma run_confirmations:
  "confirmations (run p es s) + pending (run p es s) = confirmations s + pending s"
  by (induction es arbitrary: s) (simp_all add: step_confirmations)

lemma step_confirmed_hostname:
  "mHostnameConfirmed s \<Longrightarrow>
     mHostnameConfirmed (step p e s) \<and> mHostname (step p e s) = mHostname s"
  by (cases e)
     (simp_all add: onSocketTimeout_candidate onReadyRead_def onMessageReceived_def
        scanRecords_confirmed Let_def split: option.splits)

lemma run_confirmed_hostname:
  "mHostnameConfirmed s \<Longrightarrow>
     mHostnameConfirmed (run p es s) \<and> mHostname (run p es s) = mHostname s"
proof (induction es arbitrary: s)
  case Nil
  then show ?case by simp
next
  case (Cons e es)
  from Cons.prems step_confirmed_hostname [of s p e]
  have "mHostnameConfirmed (step p e s)" and "mHostname (step p e s) = mHostname s" by simp_all
  with Cons.IH [of "step p e s"] show ?case by simp
qed

lemma fired_fields:
  "mHostnameConfirmed fired" "mHostnameTimer fired = None" "mHostname fired = ''host.local.''"
  "confirmations fired = 1"
  by (simp_all add: fired_def)

subsection \<open>The suffix counter\<close>

lemma onReadyRead_suffix_mono: "mHostnameSuffix s \<le> mHostnameSuffix (onReadyRead p k pkt a prt s)"
proof (cases "fromPacket p pkt")
  case None
  then show ?thesis by (simp add: onReadyRead_def)
next
  case (Some d)
  then show ?thesis by (simp add: onReadyRead_candidate)
qed

lemma step_suffix_mono:
  "\<not> isMaintenance e \<Longrightarrow> mHostnameSuffix s \<le> mHostnameSuffix (step p e s)"
  by (cases e) (simp_all add: onReadyRead_suffix_mono)

lemma run_suffix_mono:
  "\<forall>e\<in>set es. \<not> isMaintenance e \<Longrightarrow> mHostnameSuffix s \<le> mHostnameSuffix (run p es s)"
proof (induction es arbitrary: s)
  case Nil
  then show ?case by simp
next
  case (Cons e es)
  have "mHostnameSuffix s \<le> mHostnameSuffix (step p e s)"
    using Cons.prems by (simp add: step_suffix_mono)
  also have "\<dots> \<le> mHostnameSuffix (run p es (step p e s))"
    using Cons.prems by (intro Cons.IH) simp
  finally show ?case by simp
qed

lemma first_conflict:
  "mHostnameSuffix (step host (ReadyRead IPv4 [1] peer4 5353) started) = 2"
  "mHostname (step host (ReadyRead IPv4 [1] peer4 5353) started) = ''host-1.local.''"
  by (simp_all add: onReadyRead_candidate nextCandidate_host_1)

subsection \<open>The candidate and the counter\<close>

lemma onSocketTimeout_candidateMatches:
  assumes "\<not> mHostnameConfirmed s" and "candidateMatches p s"
  shows "candidateMatches p (onSocketTimeout p os (s\<lparr>mSocketTimer := None\<rparr>))"
proof (cases "boundAfter p os IPv4 s \<or> boundAfter p os IPv6 s")
  case True
  with assms(1) show ?thesis
    by (simp add: candidateMatches_def onSocketTimeout_candidate boundAfter_def socket_def)
next
  case False
  with assms show ?thesis
    by (simp add: candidateMatches_def onSocketTimeout_candidate onSocketTimeout_IPv4
          onSocketTimeout_IPv6 boundAfter_def boundByProbe_def socket_def
          SocketState_not_Bound)
qed

lemma onReadyRead_candidateMatches:
  assumes "CHR ''%'' \<notin> set (localHostName p)"
    and "state (socket k s) = BoundState" and "candidateMatches p s"
  shows "candidateMatches p (onReadyRead p k pkt a prt s)"
proof (cases "fromPacket p pkt")
  case None
  with assms(3) show ?thesis by (simp add: onReadyRead_def)
next
  case (Some d)
  from assms(2,3) have named:
    "(mHostnameSuffix s = 1 \<and> mHostname s = localHostName p @ ''.local.'')
     \<or> (2 \<le> mHostnameSuffix s
        \<and> mHostname s = localHostName p @ ''-'' @ number (mHostnameSuffix s - 1) @ ''.local.'')"
    by (cases k) (auto simp: candidateMatches_def socket_def)
  then show ?thesis
    by (auto simp: candidateMatches_def onReadyRead_candidate [OF Some]
          nextCandidate_plain [OF assms(1)])
qed

lemma step_candidateMatches:
  assumes "CHR ''%'' \<notin> set (localHostName p)"
    and "mHostnameTimer s = None" and "\<not> mHostnameConfirmed s" and "candidateMatches p s"
  shows "candidateMatches p (step p e s)"
proof (cases e)
  case (SocketTimerTimeout os)
  with assms onSocketTimeout_candidateMatches [of s p os] show ?thesis by simp
next
  case HostnameTimerTimeout
  with assms show ?thesis by simp
next
  case (ReadyRead k pkt a prt)
  with assms onReadyRead_candidateMatches [of p k s pkt a prt] show ?thesis by simp
qed

lemma run_candidateMatches:
  "CHR ''%'' \<notin> set (localHostName p) \<Longrightarrow>
   mHostnameTimer s = None \<Longrightarrow> \<not> mHostnameConfirmed s \<Longrightarrow> candidateMatches p s \<Longrightarrow>
     candidateMatches p (run p es s)"
proof (induction es arbitrary: s)
  case Nil
  then show ?case by simp
next
  case (Cons e es)
  have "mHostnameTimer (step p e s) = None"
    using Cons.prems(2) by (rule step_hostnameTimer)
  moreover have "\<not> mHostnameConfirmed (step p e s)"
    using Cons.prems(2,3) by (simp add: step_unconfirmed)
  moreover have "candidateMatches p (step p e s)"
    using Cons.prems by (intro step_candidateMatches)
  ultimately show ?case using Cons.IH [of "step p e s"] Cons.prems(1) by simp
qed

lemma new_candidateMatches: "candidateMatches p (MdnsServer_new p os g)"
proof -
  have "candidateMatches p (initial g)" by (simp add: candidateMatches_def initial_def)
  moreover have "\<not> mHostnameConfirmed (initial g)" by (simp add: initial_def)
  ultimately have "candidateMatches p (onSocketTimeout p os ((initial g)\<lparr>mSocketTimer := None\<rparr>))"
    by (intro onSocketTimeout_candidateMatches)
  moreover have "(initial g)\<lparr>mSocketTimer := None\<rparr> = initial g" by (simp add: initial_def)
  ultimately show ?thesis by (simp add: MdnsServer_new_def)
qed

section \<open>The claims\<close>

text \<open>
  C1. The claim: during maintenance the IPv4 socket joins its group on a multicast-capable
  interface only if the interface carries an IPv4 address, the IPv6 socket only if it
  carries an IPv6 address. Line 94 tests \<open>ipv6Address\<close> for the IPv4 socket, as line 97
  does for the IPv6 socket. Evaluated on \<open>host\<close> with both sockets bound: on an interface
  that carries only an IPv6 address the IPv4 socket is asked to join; on an interface that
  carries only an IPv4 address no join is requested at all.
\<close>

theorem ipv4_join_follows_ipv6_addresses:
  "outputs (MdnsServer_new host (osWith [v6only]) g) =
     [JoinMulticastGroup IPv4 MdnsIpv4Address ''eth0'',
      JoinMulticastGroup IPv6 MdnsIpv6Address ''eth0'',
      probeDatagram host IPv4 ''host.local.'', probeDatagram host IPv6 ''host.local.'']
   \<and> \<not> carries IPv4Protocol v6only
   \<and> outputs (MdnsServer_new host (osWith [v4only]) g) =
     [probeDatagram host IPv4 ''host.local.'', probeDatagram host IPv6 ''host.local.'']
   \<and> carries IPv4Protocol v4only"
  by (simp add: MdnsServer_new_def onSocketTimeout_def Let_def initial_def checkHostname_write
        writeDatagram_def probeDatagram_def
        joinInterface_eq joins4_def joins6_def carries_def v6only_def v4only_def osWith_def
        CanMulticast_def bindSocket_def setSocket_def socket_def joinMulticastGroup_def emit_def)

text \<open>
  C2. The claim: whenever probing is entered or re-entered, the confirmation timer is armed,
  so that the candidate is confirmed when no conflicting response arrives. No member
  function starts \<open>mHostnameTimer\<close>: \<open>checkHostname\<close>, \<open>onSocketTimeout\<close> and
  \<open>onMessageReceived\<close> leave it as it is, and after the constructor, whatever events
  follow, the timer is stopped, the hostname is unconfirmed and \<open>hostnameConfirmed\<close> has
  not been emitted.
\<close>

theorem hostname_timer_never_started:
  "mHostnameTimer (checkHostname p f s) = mHostnameTimer s
   \<and> mHostnameTimer (onSocketTimeout p os s) = mHostnameTimer s
   \<and> mHostnameTimer (onMessageReceived p message s) = mHostnameTimer s
   \<and> mHostnameTimer (run p es (MdnsServer_new p os g)) = None
   \<and> mHostnameConfirmed (run p es (MdnsServer_new p os g)) = False
   \<and> confirmations (run p es (MdnsServer_new p os g)) = 0"
proof -
  have "confirmations (run p es (MdnsServer_new p os g)) = 0"
    using run_confirmations [of p es "MdnsServer_new p os g"]
    by (simp add: pending_def new_never_armed)
  then show ?thesis
    using run_never_armed [of "MdnsServer_new p os g" p es]
    by (simp add: new_never_armed)
qed

text \<open>
  C3, as amended. Over events that are not maintenance runs the suffix counter never
  decreases; a conflicting response read from a bound socket while the hostname is
  unconfirmed increases it by exactly one; a maintenance run sets it to 1 when it ends with
  a socket bound and the hostname unconfirmed, and leaves it unchanged otherwise.
\<close>

theorem suffix_between_maintenance_runs:
  "((\<forall>e\<in>set es. \<not> isMaintenance e) \<longrightarrow> mHostnameSuffix s \<le> mHostnameSuffix (run p es s))
   \<and> (state (socket k s) = BoundState \<and> fromPacket p pkt = Some d \<and> isResponse d
        \<and> (\<exists>r\<in>set (records d). conflicts s r) \<and> \<not> mHostnameConfirmed s
      \<longrightarrow> mHostnameSuffix (step p (ReadyRead k pkt a prt) s) = mHostnameSuffix s + 1)
   \<and> mHostnameSuffix (onSocketTimeout p os s) =
       (if (boundAfter p os IPv4 s \<or> boundAfter p os IPv6 s) \<and> \<not> mHostnameConfirmed s
        then 1 else mHostnameSuffix s)"
  by (simp add: run_suffix_mono onReadyRead_candidate onSocketTimeout_candidate)

theorem suffix_between_maintenance_runs_witness:
  "mHostnameSuffix started
     \<le> mHostnameSuffix
         (run host [ReadyRead IPv4 [1] peer4 5353, HostnameTimerTimeout,
                    ReadyRead IPv6 [2] peer4 5353] started)
   \<and> mHostnameSuffix (step host (ReadyRead IPv4 [1] peer4 5353) started)
       = mHostnameSuffix started + 1"
proof -
  let ?es = "[ReadyRead IPv4 [1] peer4 5353, HostnameTimerTimeout, ReadyRead IPv6 [2] peer4 5353]"
  have h1: "\<forall>e\<in>set ?es. \<not> isMaintenance e" by simp
  have h2: "state (socket IPv4 started) = BoundState \<and>
            fromPacket host [1] = Some (response [answer A ''host.local.'' 120]) \<and>
            isResponse (response [answer A ''host.local.'' 120]) \<and>
            (\<exists>r\<in>set (records (response [answer A ''host.local.'' 120])). conflicts started r) \<and>
            \<not> mHostnameConfirmed started"
    by simp
  from suffix_between_maintenance_runs
         [of ?es started host IPv4 "[1]" "response [answer A ''host.local.'' 120]" peer4 5353]
       h1 h2
  show ?thesis by blast
qed

text \<open>
  C3 as stated fails: after the constructor has bound the sockets, one conflicting response
  raises the counter to 2, and the next maintenance run, finding the hostname unconfirmed,
  sets it back to 1.
\<close>

theorem suffix_reset_counterexample:
  "mHostnameSuffix (run host [ReadyRead IPv4 [1] peer4 5353] started) = 2
   \<and> mHostnameSuffix
       (run host [ReadyRead IPv4 [1] peer4 5353, SocketTimerTimeout (osWith [])] started) = 1"
  by (simp add: first_conflict step_SocketTimerTimeout [of _ 60000] onSocketTimeout_candidate
        boundAfter_def socket_def del: step.simps)

text \<open>
  C4, as amended. \<open>hostnameConfirmed\<close> is emitted at most once in a component's life, and
  from any state on at most once more; once the hostname is confirmed no later event changes
  the hostname or the flag, and once it is confirmed and the single-shot timer has fired no
  further \<open>hostnameConfirmed\<close> is emitted.
\<close>

theorem confirmed_at_most_once:
  "confirmations (run p es (MdnsServer_new p os g)) \<le> 1
   \<and> confirmations (run p es s) \<le> confirmations s + 1
   \<and> (mHostnameConfirmed s \<longrightarrow>
        mHostnameConfirmed (run p es s) \<and> mHostname (run p es s) = mHostname s)
   \<and> (mHostnameConfirmed s \<and> mHostnameTimer s = None \<longrightarrow>
        confirmations (run p es s) = confirmations s)"
proof -
  have a: "confirmations (run p es s') \<le> confirmations s' + 1" for s'
    using run_confirmations [of p es s'] by (simp add: pending_def split: if_splits)
  from a [of "MdnsServer_new p os g"]
  have b: "confirmations (run p es (MdnsServer_new p os g)) \<le> 1" by simp
  have c: "confirmations (run p es s) = confirmations s" if "mHostnameTimer s = None"
    using that run_confirmations [of p es s] run_never_armed [of s p es]
    by (simp add: pending_def)
  from a [of s] b c run_confirmed_hostname [of s p es] show ?thesis by blast
qed

theorem confirmed_at_most_once_witness:
  "mHostnameConfirmed
     (run host [HostnameTimerTimeout, ReadyRead IPv4 [1] peer4 5353, SocketTimerTimeout (osWith [])]
        fired)
   \<and> mHostname
     (run host [HostnameTimerTimeout, ReadyRead IPv4 [1] peer4 5353, SocketTimerTimeout (osWith [])]
        fired) = ''host.local.''
   \<and> confirmations
     (run host [HostnameTimerTimeout, ReadyRead IPv4 [1] peer4 5353, SocketTimerTimeout (osWith [])]
        fired) = 1"
  using confirmed_at_most_once
          [of host "[HostnameTimerTimeout, ReadyRead IPv4 [1] peer4 5353, SocketTimerTimeout (osWith [])]"
              "osWith []" 0 fired]
        fired_fields
  by (simp del: run.simps)

text \<open>
  C4 as stated (exactly once) fails: where every bind is refused, the constructor and two
  further maintenance runs report six bind errors and \<open>hostnameConfirmed\<close> is not emitted.
\<close>

theorem never_bound_never_confirmed:
  "outputs (run host [SocketTimerTimeout osNoBind, SocketTimerTimeout osNoBind]
              (MdnsServer_new host osNoBind 0)) =
     [Error ''address in use'', Error ''address in use'', Error ''address in use'',
      Error ''address in use'', Error ''address in use'', Error ''address in use'']
   \<and> confirmations (run host [SocketTimerTimeout osNoBind, SocketTimerTimeout osNoBind]
                      (MdnsServer_new host osNoBind 0)) = 0"
  by (simp add: MdnsServer_new_def onSocketTimeout_def Let_def initial_def bindSocket_def
        bindReuse_def osNoBind_def emit_def confirmations_def)

text \<open>
  C5, as amended. For a machine name without the character \<open>%\<close> (so that the name brings
  no place marker into line 149), at every instant of a component's life either no socket
  has been bound yet and there is no candidate, or the counter is 1 and the candidate is
  \<open>base.local.\<close>, or the counter is \<open>n \<ge> 2\<close> and the candidate is \<open>base-(n-1).local.\<close>:
  the suffix written in the name is the value the counter had before its last increment.
\<close>

theorem candidate_one_behind_counter:
  assumes "CHR ''%'' \<notin> set (localHostName p)"
  shows "candidateMatches p (run p es (MdnsServer_new p os g))"
  using assms by (intro run_candidateMatches new_candidateMatches new_never_armed)

theorem candidate_one_behind_counter_witness:
  "mHostnameSuffix
     (run host [ReadyRead IPv4 [1] peer4 5353, ReadyRead IPv6 [2] peer4 5353] started) = 3
   \<and> mHostname
     (run host [ReadyRead IPv4 [1] peer4 5353, ReadyRead IPv6 [2] peer4 5353] started)
       = ''host-2.local.''"
proof -
  let ?e1 = "ReadyRead IPv4 [1] peer4 5353" and ?e2 = "ReadyRead IPv6 [2] peer4 5353"
  let ?s1 = "step host ?e1 started"
  have h: "CHR ''%'' \<notin> set (localHostName host)" by simp
  have bound: "state (socket IPv6 ?s1) = BoundState"
    by (simp add: onReadyRead_bound)
  have second: "step host ?e2 ?s1 = onReadyRead host IPv6 [2] peer4 5353 ?s1"
    using bound by (rule step_ReadyRead_bound)
  have three: "mHostnameSuffix (run host [?e1, ?e2] started) = 3"
    by (simp add: second onReadyRead_candidate first_conflict del: step.simps)
  have b1: "state (socket IPv4 ?s1) = BoundState"
    by (simp add: onReadyRead_bound)
  have b4: "state (socket IPv4 (run host [?e1, ?e2] started)) = BoundState"
    using onReadyRead_bound [OF b1, of host IPv6 "[2]" peer4 5353]
    by (simp add: second del: step.simps)
  have two: "number 2 = ''2''"
    by (simp add: number_def decimal.simps digit_def)
  from candidate_one_behind_counter [OF h, of "[?e1, ?e2]" "osWith []" 0]
  have "candidateMatches host (run host [?e1, ?e2] started)"
    by (simp only: started_def)
  with three b4 have "mHostname (run host [?e1, ?e2] started) = ''host-2.local.''"
    by (simp add: candidateMatches_def two socket_def del: run.simps)
  with three show ?thesis by (simp del: run.simps)
qed

text \<open>
  C5 as stated fails: after one conflicting response the candidate is \<open>host-1.local.\<close> while
  the counter is 2. And under the machine name \<open>a%1b\<close> the first retry builds the candidate
  \<open>a-1b%2.local.\<close>, because the second \<open>arg\<close> of line 149 fills the marker that the name
  brought in.
\<close>

theorem candidate_suffix_counterexample:
  "mHostname (run host [ReadyRead IPv4 [1] peer4 5353] started) = ''host-1.local.''
   \<and> mHostnameSuffix (run host [ReadyRead IPv4 [1] peer4 5353] started) = 2
   \<and> mHostname (run host [ReadyRead IPv4 [1] peer4 5353] started)
       \<noteq> localHostName host @ ''-''
           @ number (mHostnameSuffix (run host [ReadyRead IPv4 [1] peer4 5353] started))
           @ ''.local.''
   \<and> mHostname (MdnsServer_new marked (osWith []) 0) = ''a%1b.local.''
   \<and> mHostname
        (onMessageReceived marked (response [answer A ''a%1b.local.'' 120])
           (MdnsServer_new marked (osWith []) 0)) = ''a-1b%2.local.''"
proof -
  have a: "mHostname (MdnsServer_new marked (osWith []) 0) = ''a%1b.local.''"
    and b: "mHostnameSuffix (MdnsServer_new marked (osWith []) 0) = 1"
    and c: "\<not> mHostnameConfirmed (MdnsServer_new marked (osWith []) 0)"
    by (simp_all add: MdnsServer_new_def onSocketTimeout_candidate boundAfter_def bindOk_def
          osWith_def initial_def)
  have d: "nextCandidate marked 1 = ''a-1b%2.local.''"
    by (simp add: nextCandidate_def arg_name arg_suffix number_1)
       (simp add: arg_def localeEscape_def escape_def digitValue_def)
  have "mHostname
          (onMessageReceived marked (response [answer A ''a%1b.local.'' 120])
             (MdnsServer_new marked (osWith []) 0)) = ''a-1b%2.local.''"
    by (simp add: onMessageReceived_cases a b c d)
  with a show ?thesis
    by (simp add: first_conflict number_def decimal.simps digit_def del: step.simps)
qed

text \<open>
  C6. A socket bound to \<open>AnyIPv4\<close> or \<open>AnyIPv6\<close> (lines 76 and 79) delivers datagrams whose
  source address is of its own family. Every successfully decoded datagram read that way is
  annotated with its source address, its source port and the family of the receiving
  socket, the rest of the decoded message being kept; \<open>messageReceived\<close> is emitted with the
  annotated message before the response handling adds anything to the outputs, and the
  handling runs on the annotated message.
\<close>

theorem annotated_before_dispatch:
  assumes "fromPacket p packet = Some decoded"
    and "addrProtocol addr = familyProtocol sender"
  shows "onReadyRead p sender packet addr prt s =
           onMessageReceived p (annotate addr prt decoded)
             (emit (MessageReceived (annotate addr prt decoded)) s)
         \<and> take (Suc (length (outputs s))) (outputs (onReadyRead p sender packet addr prt s)) =
             outputs s @ [MessageReceived (annotate addr prt decoded)]
         \<and> address (annotate addr prt decoded) = addr
         \<and> port (annotate addr prt decoded) = prt
         \<and> protocol (annotate addr prt decoded) = sender
         \<and> isResponse (annotate addr prt decoded) = isResponse decoded
         \<and> records (annotate addr prt decoded) = records decoded
         \<and> queries (annotate addr prt decoded) = queries decoded"
proof -
  have eq: "onReadyRead p sender packet addr prt s =
              onMessageReceived p (annotate addr prt decoded)
                (emit (MessageReceived (annotate addr prt decoded)) s)"
    using assms(1) by (simp add: onReadyRead_def Let_def)
  have fam: "protocol (annotate addr prt decoded) = sender"
    using assms(2) by (cases sender) simp_all
  show ?thesis
    unfolding eq using fam by (simp add: onMessageReceived_outputs)
qed

theorem annotated_before_dispatch_witness:
  "outputs (onReadyRead host IPv4 [2] peer4 5353 started) =
     outputs started @
       [MessageReceived
          \<lparr>isResponse = True, records = [answer A ''host-1.local.'' 120], queries = [],
           address = peer4, protocol = IPv4, port = 5353\<rparr>]"
proof -
  have h1: "fromPacket host [2] = Some (response [answer A ''host-1.local.'' 120])" by simp
  have h2: "addrProtocol peer4 = familyProtocol IPv4" by (simp add: peer4_def)
  have m: "annotate peer4 5353 (response [answer A ''host-1.local.'' 120]) =
             \<lparr>isResponse = True, records = [answer A ''host-1.local.'' 120], queries = [],
              address = peer4, protocol = IPv4, port = 5353\<rparr>"
    by (simp add: annotate_def response_def DnsMessage_new_def peer4_def)
  from annotated_before_dispatch [OF h1 h2, of 5353 started]
  have "onReadyRead host IPv4 [2] peer4 5353 started =
          onMessageReceived host (annotate peer4 5353 (response [answer A ''host-1.local.'' 120]))
            (emit (MessageReceived (annotate peer4 5353 (response [answer A ''host-1.local.'' 120])))
               started)"
    by blast
  then show ?thesis
    by (simp add: onMessageReceived_cases) (simp add: m)
qed

text \<open>
  C7. An inbound message that is not a response, or whose records all fail the conflict test
  (the type is neither \<open>A\<close> nor \<open>AAAA\<close>, or the name differs from the current candidate, or
  the TTL is zero), triggers no retry: \<open>onMessageReceived\<close> returns the component as it was,
  so the candidate, the suffix counter and the confirmation flag are unchanged and nothing is
  written to a socket.
\<close>

theorem no_conflict_no_retry:
  assumes "\<not> isResponse message \<or>
           (\<forall>r\<in>set (records message).
              (r_type r \<noteq> A \<and> r_type r \<noteq> AAAA) \<or> r_name r \<noteq> mHostname s \<or> r_ttl r = 0)"
  shows "onMessageReceived p message s = s"
proof (cases "isResponse message")
  case False
  then show ?thesis by (simp add: onMessageReceived_def)
next
  case True
  with assms have "\<forall>r\<in>set (records message). \<not> conflicts s r"
    by (auto simp: conflicts_def)
  then show ?thesis by (simp add: onMessageReceived_def scanRecords_none)
qed

theorem no_conflict_no_retry_witness:
  "onMessageReceived host
     (response [answer A ''host.local.'' 0, answer AAAA ''other.local.'' 120,
                answer (OtherType 16) ''host.local.'' 120])
     (MdnsServer_new host (osWith []) 0) = MdnsServer_new host (osWith []) 0"
  by (rule no_conflict_no_retry) (simp add: response_def answer_def new_host)

text \<open>
  C8. When decoding an inbound datagram fails, \<open>onReadyRead\<close> returns the component as it
  was: no signal is emitted (the log of outputs is part of the component) and no member
  changes. The same holds for the event as the event loop delivers it.
\<close>

theorem decode_failure_dropped:
  assumes "fromPacket p packet = None"
  shows "onReadyRead p sender packet addr prt s = s
         \<and> step p (ReadyRead sender packet addr prt) s = s"
  using assms by (simp add: onReadyRead_def)

theorem decode_failure_dropped_witness:
  "onReadyRead host IPv4 [0, 7] peer4 5353 (MdnsServer_new host (osWith []) 0)
     = MdnsServer_new host (osWith []) 0
   \<and> step host (ReadyRead IPv4 [0, 7] peer4 5353) (MdnsServer_new host (osWith []) 0)
     = MdnsServer_new host (osWith []) 0"
  by (rule decode_failure_dropped) (simp add: exampleDecode_def)

text \<open>
  C9. A response that contains one or several records matching the current candidate, received
  while the hostname is unconfirmed, triggers exactly one retry whatever the number of
  matching records: the result is that of a single \<open>retry\<close>, the suffix counter has grown by
  one, and exactly one probe per family has been handed to the sockets.
\<close>

theorem first_match_only:
  assumes "isResponse message" and "\<not> mHostnameConfirmed s"
    and "\<exists>r\<in>set (records message). conflicts s r"
  shows "onMessageReceived p message s = retry p s
         \<and> mHostnameSuffix (onMessageReceived p message s) = mHostnameSuffix s + 1
         \<and> outputs (onMessageReceived p message s) =
             outputs s @
               [probeDatagram p IPv4 (mHostname (onMessageReceived p message s)),
                probeDatagram p IPv6 (mHostname (onMessageReceived p message s))]"
  using assms by (simp add: onMessageReceived_def scanRecords_retry)

theorem first_match_only_witness:
  "mHostnameSuffix
     (onMessageReceived host
        (response [answer A ''host.local.'' 120, answer AAAA ''host.local.'' 120,
                   answer A ''host.local.'' 4500])
        (MdnsServer_new host (osWith []) 0)) = 2
   \<and> outputs
     (onMessageReceived host
        (response [answer A ''host.local.'' 120, answer AAAA ''host.local.'' 120,
                   answer A ''host.local.'' 4500])
        (MdnsServer_new host (osWith []) 0)) =
       outputs (MdnsServer_new host (osWith []) 0) @
         [probeDatagram host IPv4 ''host-1.local.'', probeDatagram host IPv6 ''host-1.local.'']"
proof -
  let ?m = "response [answer A ''host.local.'' 120, answer AAAA ''host.local.'' 120,
                      answer A ''host.local.'' 4500]"
  let ?s = "MdnsServer_new host (osWith []) 0"
  have h1: "isResponse ?m" by (simp add: response_def)
  have h2: "\<not> mHostnameConfirmed ?s" by (simp add: new_host)
  have h3: "\<exists>r\<in>set (records ?m). conflicts ?s r"
    by (simp add: response_def answer_def conflicts_def new_host)
  from first_match_only [OF h1 h2 h3, of host] show ?thesis
    by (simp add: new_host nextCandidate_host_1)
qed




end
